theory Spec2Isabelle
  imports Main
begin

section \<open>Common Python values\<close>

text \<open>
  Exceptions raised by the code are values of \<open>error\<close>; a function that may raise
  returns \<open>error + 'a\<close>, with \<open>Inl\<close> for the exception. \<open>ValueError\<close> and
  \<open>TypeError\<close> carry their message. \<open>AttributeError\<close> is what the interpreter
  raises for a missing attribute or for an assignment to a property without a setter;
  its message is the interpreter's and is not modelled.
\<close>

datatype error = ValueError string | TypeError string | AttributeError

text \<open>
  A class object (\<open>type[BaseModel]\<close>, the owner of an instruction). Classes are hashed
  and compared by identity; \<open>cls_id\<close> stands for that identity, and \<open>__module__\<close> and
  \<open>__name__\<close> are the two attributes the code reads.
\<close>

record pyclass =
  cls_id :: nat
  cls_module :: string
  cls_name :: string

text \<open>
  Modelled from the spec: \<open>Sentinel\<close> is imported from \<open>_utils\<close>, which is not among
  the sources. The spec describes it as a dedicated "unset" marker, a tagged value
  distinct from any legitimate attribute value; it is a constructor of its own in the
  type of Python values. The other constructors are the values the code stores without
  looking inside: \<open>None\<close>, booleans, integers, strings, lists, dictionaries, sets of
  strings, and objects known by their identity (classes, callables, dependencies,
  routes).
\<close>

datatype pyval =
    Sentinel
  | PyNone
  | PyBool bool
  | PyInt int
  | PyStr string
  | PyList "pyval list"
  | PyDict "(pyval \<times> pyval) list"
  | PyStrSet "string set"
  | PyObject nat

section \<open>cadwyn/structure/data.py: instructions\<close>

text \<open>
  A transformer is a callable object: a function, or an instruction that a converter
  of this module returned (one converter stacked on another). \<open>t_id\<close> is its identity.
  \<open>t_params\<close> is \<open>list(inspect.signature(t).parameters)\<close>: the names of the declared
  parameters in declaration order. \<open>t_module\<close>, \<open>t_name\<close>, \<open>t_qualname\<close>, \<open>t_doc\<close>
  and \<open>t_annotations\<close> are what \<open>getattr\<close> gives for \<open>__module__\<close>, \<open>__name__\<close>,
  \<open>__qualname__\<close>, \<open>__doc__\<close> and \<open>__annotations__\<close>, which every function and every
  instruction of this module has. \<open>t_dict\<close> is its \<open>__dict__\<close>: empty for a function
  straight from a \<open>def\<close>, the attributes set on it otherwise, and for an instruction
  its instance attributes.
\<close>

record transformer =
  t_id :: nat
  t_module :: string
  t_name :: string
  t_qualname :: string
  t_doc :: "string option"
  t_annotations :: pyval
  t_params :: "string list"
  t_dict :: "string \<rightharpoonup> pyval"

text \<open>
  The four concrete instruction classes, and an instruction: its class and its instance
  \<open>__dict__\<close>. The dataclasses have no slots and their fields have no defaults, so
  every field (\<open>transformer\<close>, \<open>owner\<close>, \<open>schema\<close>, \<open>path\<close>, \<open>methods\<close>) is an entry
  of the instance \<open>__dict__\<close> and nothing else. A callable or a class is held by
  reference, \<open>PyObject\<close> of its identity.
\<close>

datatype instruction_class =
    AlterRequestBySchemaInstruction
  | AlterRequestByPathInstruction
  | AlterResponseBySchemaInstruction
  | AlterResponseByPathInstruction

record Instruction =
  instr_class :: instruction_class
  instr_dict :: "string \<rightharpoonup> pyval"

text \<open>Reading a field of an instruction; a field that was never set raises.\<close>

definition getattr_field :: "Instruction \<Rightarrow> string \<Rightarrow> error + pyval" where
  "getattr_field self k =
     (case instr_dict self k of None \<Rightarrow> Inl AttributeError | Some v \<Rightarrow> Inr v)"

text \<open>
  \<open>functools.update_wrapper(self, self.transformer)\<close> on the instance \<open>__dict__\<close>: it
  assigns the five attributes of \<open>WRAPPER_ASSIGNMENTS\<close>, then updates the instance
  \<open>__dict__\<close> with the transformer's \<open>__dict__\<close>, then sets \<open>__wrapped__\<close>.
\<close>

definition update_wrapper :: "(string \<rightharpoonup> pyval) \<Rightarrow> transformer \<Rightarrow> (string \<rightharpoonup> pyval)" where
  "update_wrapper d t =
     ((d(''__module__'' \<mapsto> PyStr (t_module t),
         ''__name__'' \<mapsto> PyStr (t_name t),
         ''__qualname__'' \<mapsto> PyStr (t_qualname t),
         ''__doc__'' \<mapsto> (case t_doc t of None \<Rightarrow> PyNone | Some doc \<Rightarrow> PyStr doc),
         ''__annotations__'' \<mapsto> t_annotations t))
        ++ t_dict t)
       (''__wrapped__'' \<mapsto> PyObject (t_id t))"

text \<open>
  \<open>_AlterDataInstruction.__post_init__\<close>, with the class variable
  \<open>_payload_arg_name\<close> of the instance's class as first argument, the instance
  \<open>__dict__\<close> that \<open>__init__\<close> has filled as second, and \<open>self.transformer\<close>, the
  transformer \<open>__init__\<close> has just stored, as third. It returns the instance
  \<open>__dict__\<close> it leaves.
\<close>

definition AlterDataInstruction_post_init ::
    "string \<Rightarrow> (string \<rightharpoonup> pyval) \<Rightarrow> transformer \<Rightarrow> error + (string \<rightharpoonup> pyval)" where
  "AlterDataInstruction_post_init payload_arg_name d t =
     (if t_params t \<noteq> [payload_arg_name]
      then Inl (ValueError (''Method '' @ [CHR 0x27] @ t_name t @ [CHR 0x27]
                  @ '' must have 2 parameters: cls and '' @ payload_arg_name))
      else Inr (update_wrapper d t))"

text \<open>\<open>_payload_arg_name\<close> of \<open>_BaseAlterRequestInstruction\<close> and of \<open>_BaseAlterResponseInstruction\<close>.\<close>

definition BaseAlterRequestInstruction_payload_arg_name :: string where
  "BaseAlterRequestInstruction_payload_arg_name = ''request''"

definition BaseAlterResponseInstruction_payload_arg_name :: string where
  "BaseAlterResponseInstruction_payload_arg_name = ''response''"

text \<open>
  The generated \<open>__init__\<close> of each dataclass: it stores the fields that are
  parameters, \<open>transformer\<close> first (\<open>owner\<close> is \<open>field(init=False)\<close> with no default
  and is not stored), and then runs \<open>__post_init__\<close>; when that raises, no instance is
  returned. \<open>methods\<close> is a \<open>set[str]\<close>.
\<close>

definition AlterRequestBySchemaInstruction_init :: "pyclass \<Rightarrow> transformer \<Rightarrow> error + Instruction" where
  "AlterRequestBySchemaInstruction_init schema t =
     (case AlterDataInstruction_post_init BaseAlterRequestInstruction_payload_arg_name
             [''transformer'' \<mapsto> PyObject (t_id t), ''schema'' \<mapsto> PyObject (cls_id schema)] t of
        Inl e \<Rightarrow> Inl e
      | Inr d \<Rightarrow> Inr \<lparr>instr_class = AlterRequestBySchemaInstruction, instr_dict = d\<rparr>)"

definition AlterRequestByPathInstruction_init :: "string \<Rightarrow> string set \<Rightarrow> transformer \<Rightarrow> error + Instruction" where
  "AlterRequestByPathInstruction_init path methods t =
     (case AlterDataInstruction_post_init BaseAlterRequestInstruction_payload_arg_name
             [''transformer'' \<mapsto> PyObject (t_id t), ''path'' \<mapsto> PyStr path,
              ''methods'' \<mapsto> PyStrSet methods] t of
        Inl e \<Rightarrow> Inl e
      | Inr d \<Rightarrow> Inr \<lparr>instr_class = AlterRequestByPathInstruction, instr_dict = d\<rparr>)"

definition AlterResponseBySchemaInstruction_init :: "pyclass \<Rightarrow> transformer \<Rightarrow> error + Instruction" where
  "AlterResponseBySchemaInstruction_init schema t =
     (case AlterDataInstruction_post_init BaseAlterResponseInstruction_payload_arg_name
             [''transformer'' \<mapsto> PyObject (t_id t), ''schema'' \<mapsto> PyObject (cls_id schema)] t of
        Inl e \<Rightarrow> Inl e
      | Inr d \<Rightarrow> Inr \<lparr>instr_class = AlterResponseBySchemaInstruction, instr_dict = d\<rparr>)"

definition AlterResponseByPathInstruction_init :: "string \<Rightarrow> string set \<Rightarrow> transformer \<Rightarrow> error + Instruction" where
  "AlterResponseByPathInstruction_init path methods t =
     (case AlterDataInstruction_post_init BaseAlterResponseInstruction_payload_arg_name
             [''transformer'' \<mapsto> PyObject (t_id t), ''path'' \<mapsto> PyStr path,
              ''methods'' \<mapsto> PyStrSet methods] t of
        Inl e \<Rightarrow> Inl e
      | Inr d \<Rightarrow> Inr \<lparr>instr_class = AlterResponseByPathInstruction, instr_dict = d\<rparr>)"





text \<open>
  The first positional argument of the two converters, \<open>schema_or_path: type | str\<close>:
  \<open>PathArg\<close> is the case \<open>isinstance(schema_or_path, str)\<close>. The second argument,
  \<open>methods: list[str] | None = None\<close>, is a \<open>string list option\<close>; omitting it and
  passing \<open>None\<close> are the same call.
\<close>

datatype schema_or_path = PathArg string | SchemaArg pyclass

definition validate_decorator_args :: "schema_or_path \<Rightarrow> string list option \<Rightarrow> error + unit" where
  "validate_decorator_args schema_or_path methods =
     (case schema_or_path of
        PathArg p \<Rightarrow>
          (if methods = None
           then Inl (ValueError ''If path was provided as a first argument, methods must be provided as a second argument'')
           else Inr ())
      | SchemaArg s \<Rightarrow>
          (if methods \<noteq> None
           then Inl (ValueError ''If schema was provided as a first argument, methods argument should not be provided'')
           else Inr ()))"

text \<open>
  \<open>set(cast(list, methods))\<close>: \<open>cast\<close> does nothing at run time, and \<open>set(None)\<close>
  raises \<open>TypeError\<close>.
\<close>

definition set_of_methods :: "string list option \<Rightarrow> error + string set" where
  "set_of_methods methods =
     (case methods of
        None \<Rightarrow> Inl (TypeError ([CHR 0x27] @ ''NoneType'' @ [CHR 0x27] @ '' object is not iterable''))
      | Some ms \<Rightarrow> Inr (set ms))"

text \<open>The inner \<open>decorator\<close> closures of the two converters.\<close>

definition request_decorator :: "schema_or_path \<Rightarrow> string list option \<Rightarrow> transformer \<Rightarrow> error + Instruction" where
  "request_decorator schema_or_path methods t =
     (case schema_or_path of
        PathArg p \<Rightarrow>
          (case set_of_methods methods of
             Inl e \<Rightarrow> Inl e
           | Inr ms \<Rightarrow> AlterRequestByPathInstruction_init p ms t)
      | SchemaArg s \<Rightarrow> AlterRequestBySchemaInstruction_init s t)"

definition response_decorator :: "schema_or_path \<Rightarrow> string list option \<Rightarrow> transformer \<Rightarrow> error + Instruction" where
  "response_decorator schema_or_path methods t =
     (case schema_or_path of
        PathArg p \<Rightarrow>
          (case set_of_methods methods of
             Inl e \<Rightarrow> Inl e
           | Inr ms \<Rightarrow> AlterResponseByPathInstruction_init p ms t)
      | SchemaArg s \<Rightarrow> AlterResponseBySchemaInstruction_init s t)"

text \<open>
  The converters validate first and only then return the decorator; a failed validation
  returns no decorator at all.
\<close>

definition convert_request_to_next_version_for ::
    "schema_or_path \<Rightarrow> string list option \<Rightarrow> error + (transformer \<Rightarrow> error + Instruction)" where
  "convert_request_to_next_version_for schema_or_path methods =
     (case validate_decorator_args schema_or_path methods of
        Inl e \<Rightarrow> Inl e
      | Inr u \<Rightarrow> Inr (request_decorator schema_or_path methods))"

definition convert_response_to_previous_version_for ::
    "schema_or_path \<Rightarrow> string list option \<Rightarrow> error + (transformer \<Rightarrow> error + Instruction)" where
  "convert_response_to_previous_version_for schema_or_path methods =
     (case validate_decorator_args schema_or_path methods of
        Inl e \<Rightarrow> Inl e
      | Inr u \<Rightarrow> Inr (response_decorator schema_or_path methods))"

text \<open>
  Decorator application, \<open>@conv(...)\<close> above \<open>def f\<close>: the converter call is evaluated
  first, and its result is applied to the function.
\<close>

definition decorate :: "error + (transformer \<Rightarrow> error + Instruction) \<Rightarrow> transformer \<Rightarrow> error + Instruction" where
  "decorate d t = (case d of Inl e \<Rightarrow> Inl e | Inr dec \<Rightarrow> dec t)"

section \<open>cadwyn/structure/data.py: the internal representation registry\<close>

text \<open>
  The module-level dictionary \<open>_SCHEMA_TO_INTERNAL_REQUEST_BODY_REPRESENTATION_MAPPING\<close>,
  keyed by the public schema class. It is global state: every call takes the current
  dictionary and returns the dictionary it leaves behind, also when it raises.
\<close>

type_synonym representation_mapping = "pyclass \<rightharpoonup> pyclass"

text \<open>
  \<open>internal_body_representation_of(represents)(cls)\<close>: the closure \<open>inner\<close> applied to
  the decorated class.
\<close>

definition internal_body_representation_of ::
    "pyclass \<Rightarrow> pyclass \<Rightarrow> representation_mapping \<Rightarrow> (error + pyclass) \<times> representation_mapping" where
  "internal_body_representation_of represents cls m =
     (case m represents of
        Some preexisting_representation \<Rightarrow>
          (Inl (TypeError (cls_name represents
                  @ '' already has an internal request body representation: ''
                  @ cls_module preexisting_representation @ ''.''
                  @ cls_name preexisting_representation)), m)
      | None \<Rightarrow> (Inr cls, m(represents \<mapsto> cls)))"

text \<open>
  A run of decorated class definitions \<open>(represents, cls)\<close>, in order. Each one may
  raise; the dictionary it leaves is the one the next starts from.
\<close>

fun register_all :: "(pyclass \<times> pyclass) list \<Rightarrow> representation_mapping \<Rightarrow> representation_mapping" where
  "register_all [] m = m"
| "register_all ((represents, cls) # rest) m =
     register_all rest (snd (internal_body_representation_of represents cls m))"

section \<open>cadwyn/structure/data.py: payload views\<close>

text \<open>
  The views hold references to objects that others hold too, so objects live in a
  store and are named by their address. A store is the list of allocated objects; an
  address is an index into it, and a new object is appended.

  The objects are those of the transport library, which is not part of the sources: a
  headers object (\<open>Headers\<close>, \<open>MutableHeaders\<close>) with its raw list of pairs, a
  \<open>dict[str, str]\<close>, and a \<open>Response\<close> with its \<open>status_code\<close> attribute and the
  reference its \<open>headers\<close> attribute gives.
\<close>

type_synonym addr = nat

datatype pyobj =
    HeadersObj "(string \<times> string) list"
  | DictObj "(string \<times> string) list"
  | ResponseObj int addr

type_synonym store = "pyobj list"

definition heap_get :: "store \<Rightarrow> addr \<Rightarrow> pyobj option" where
  "heap_get s a = (if a < length s then Some (s ! a) else None)"

text \<open>An in-place mutation of the object at an address: the object there is replaced.\<close>

definition heap_put :: "store \<Rightarrow> addr \<Rightarrow> pyobj \<Rightarrow> store" where
  "heap_put s a ob = (if a < length s then s[a := ob] else s)"

definition heap_alloc :: "store \<Rightarrow> pyobj \<Rightarrow> addr \<times> store" where
  "heap_alloc s ob = (length s, s @ [ob])"

text \<open>
  The transport request, as far as \<open>RequestInfo.__init__\<close> reads it: the objects that
  \<open>request.headers\<close>, \<open>request.cookies\<close> and \<open>request.query_params._dict\<close> evaluate
  to when the constructor runs. Evaluating them is the transport library's business,
  and what it does to the request itself on the way (it may compute and keep them on
  first use) is not part of the model, which starts from the objects they return.
\<close>

record request =
  rq_headers :: addr
  rq_cookies :: addr
  rq_query_params_dict :: addr

text \<open>
  Modelled from the spec: \<open>Headers.mutablecopy\<close> belongs to the transport library. The
  spec calls its result a mutable copy of the headers: a new headers object with the
  same content.
\<close>

definition Headers_mutablecopy :: "store \<Rightarrow> addr \<Rightarrow> error + (addr \<times> store)" where
  "Headers_mutablecopy s a =
     (case heap_get s a of
        Some (HeadersObj raw) \<Rightarrow> Inr (heap_alloc s (HeadersObj raw))
      | Some (DictObj d) \<Rightarrow> Inl AttributeError
      | Some (ResponseObj c h) \<Rightarrow> Inl AttributeError
      | None \<Rightarrow> Inl AttributeError)"

text \<open>The slots of \<open>RequestInfo\<close>.\<close>

record RequestInfo =
  req_body :: pyval
  req_headers :: addr
  req__cookies :: addr
  req__query_params :: addr
  req__request :: request

definition RequestInfo_init :: "store \<Rightarrow> request \<Rightarrow> pyval \<Rightarrow> error + (RequestInfo \<times> store)" where
  "RequestInfo_init s request body =
     (case Headers_mutablecopy s (rq_headers request) of
        Inl e \<Rightarrow> Inl e
      | Inr (h, s') \<Rightarrow>
          Inr (\<lparr>req_body = body, req_headers = h,
                req__cookies = rq_cookies request,
                req__query_params = rq_query_params_dict request,
                req__request = request\<rparr>, s'))"

text \<open>The two properties. Neither has a setter, so assigning to one raises.\<close>

definition RequestInfo_cookies :: "RequestInfo \<Rightarrow> addr" where
  "RequestInfo_cookies self = req__cookies self"

definition RequestInfo_query_params :: "RequestInfo \<Rightarrow> addr" where
  "RequestInfo_query_params self = req__query_params self"

definition RequestInfo_cookies_assign :: "RequestInfo \<Rightarrow> addr \<Rightarrow> error + RequestInfo" where
  "RequestInfo_cookies_assign self v = Inl AttributeError"

definition RequestInfo_query_params_assign :: "RequestInfo \<Rightarrow> addr \<Rightarrow> error + RequestInfo" where
  "RequestInfo_query_params_assign self v = Inl AttributeError"

text \<open>
  The slots of \<open>ResponseInfo\<close>; \<open>_response\<close> is a reference to the transport response,
  a \<open>Response\<close> by the constructor's annotation. On a reference to an object of another
  kind, reading \<open>status_code\<close> or \<open>headers\<close> raises \<open>AttributeError\<close>, as Python does for
  a missing attribute; assigning \<open>status_code\<close> is given the same outcome there, although
  Python would set a new attribute on an object that takes one.
\<close>

record ResponseInfo =
  resp_body :: pyval
  resp__response :: addr

definition ResponseInfo_init :: "addr \<Rightarrow> pyval \<Rightarrow> ResponseInfo" where
  "ResponseInfo_init response body = \<lparr>resp_body = body, resp__response = response\<rparr>"

definition ResponseInfo_status_code :: "ResponseInfo \<Rightarrow> store \<Rightarrow> error + int" where
  "ResponseInfo_status_code self s =
     (case heap_get s (resp__response self) of
        Some (ResponseObj c h) \<Rightarrow> Inr c
      | Some (HeadersObj raw) \<Rightarrow> Inl AttributeError
      | Some (DictObj d) \<Rightarrow> Inl AttributeError
      | None \<Rightarrow> Inl AttributeError)"

definition ResponseInfo_status_code_setter :: "ResponseInfo \<Rightarrow> int \<Rightarrow> store \<Rightarrow> error + store" where
  "ResponseInfo_status_code_setter self v s =
     (case heap_get s (resp__response self) of
        Some (ResponseObj c h) \<Rightarrow> Inr (heap_put s (resp__response self) (ResponseObj v h))
      | Some (HeadersObj raw) \<Rightarrow> Inl AttributeError
      | Some (DictObj d) \<Rightarrow> Inl AttributeError
      | None \<Rightarrow> Inl AttributeError)"

definition ResponseInfo_headers :: "ResponseInfo \<Rightarrow> store \<Rightarrow> error + addr" where
  "ResponseInfo_headers self s =
     (case heap_get s (resp__response self) of
        Some (ResponseObj c h) \<Rightarrow> Inr h
      | Some (HeadersObj raw) \<Rightarrow> Inl AttributeError
      | Some (DictObj d) \<Rightarrow> Inl AttributeError
      | None \<Rightarrow> Inl AttributeError)"

text \<open>The arguments of a call, \<open>*args\<close> and \<open>**kwargs\<close>.\<close>

record call_args =
  args :: "pyval list"
  kwargs :: "(string \<times> pyval) list"

text \<open>
  Modelled from the spec: the decorator \<open>same_definition_as_in\<close> is imported from
  \<open>cadwyn._utils\<close>, which is not among the sources. The spec describes the decorated
  methods as operations that forward to the transport response, so the decorator
  returns the function it decorates.
\<close>

definition same_definition_as_in :: "'t \<Rightarrow> 'f \<Rightarrow> 'f" where
  "same_definition_as_in t f = f"

text \<open>
  \<open>set_cookie\<close> and \<open>delete_cookie\<close>. \<open>Response.set_cookie\<close> and
  \<open>Response.delete_cookie\<close> belong to the transport library and are parameters: a
  method of the response at an address, from the call's arguments and the store to
  whatever it returns and leaves.
\<close>

definition ResponseInfo_set_cookie ::
    "(addr \<Rightarrow> call_args \<Rightarrow> store \<Rightarrow> 'r) \<Rightarrow> ResponseInfo \<Rightarrow> call_args \<Rightarrow> store \<Rightarrow> 'r" where
  "ResponseInfo_set_cookie Response_set_cookie =
     same_definition_as_in Response_set_cookie
       (\<lambda>self a s. Response_set_cookie (resp__response self) a s)"

definition ResponseInfo_delete_cookie ::
    "(addr \<Rightarrow> call_args \<Rightarrow> store \<Rightarrow> 'r) \<Rightarrow> ResponseInfo \<Rightarrow> call_args \<Rightarrow> store \<Rightarrow> 'r" where
  "ResponseInfo_delete_cookie Response_delete_cookie =
     same_definition_as_in Response_delete_cookie
       (\<lambda>self a s. Response_delete_cookie (resp__response self) a s)"

section \<open>universi/structure/endpoints.py\<close>

text \<open>
  \<open>EndpointAttributesPayload\<close>. The annotations are not enforced at run time, and every
  field may hold \<open>Sentinel\<close>, so each field is a Python value.
\<close>

record EndpointAttributesPayload =
  path :: pyval
  status_code :: pyval
  tags :: pyval
  dependencies :: pyval
  summary :: pyval
  description :: pyval
  response_description :: pyval
  responses :: pyval
  deprecated :: pyval
  methods :: pyval
  operation_id :: pyval
  include_in_schema :: pyval
  response_class :: pyval
  name :: pyval
  callbacks :: pyval
  openapi_extra :: pyval
  generate_unique_id_function :: pyval

text \<open>The three instruction dataclasses.\<close>

datatype AlterEndpointSubInstruction =
    EndpointHadInstruction (endpoint_path: string) (endpoint_methods: "string list")
      (attributes: EndpointAttributesPayload)
  | EndpointExistedInstruction (endpoint_path: string) (endpoint_methods: "string list")
  | EndpointDidntExistInstruction (endpoint_path: string) (endpoint_methods: "string list")

text \<open>The fields \<open>endpoint_path\<close> and \<open>endpoint_methods\<close> of \<open>EndpointInstructionFactory\<close>.\<close>

record EndpointInstructionFactory =
  factory_endpoint_path :: string
  factory_endpoint_methods :: "string list"

definition didnt_exist :: "EndpointInstructionFactory \<Rightarrow> AlterEndpointSubInstruction" where
  "didnt_exist self =
     EndpointDidntExistInstruction (factory_endpoint_path self) (factory_endpoint_methods self)"

definition existed :: "EndpointInstructionFactory \<Rightarrow> AlterEndpointSubInstruction" where
  "existed self =
     EndpointExistedInstruction (factory_endpoint_path self) (factory_endpoint_methods self)"

text \<open>
  The keyword arguments of a call of \<open>had\<close>: \<open>None\<close> for an argument the call leaves
  out, \<open>Some v\<close> for one it passes.
\<close>

record had_kwargs =
  kw_path :: "pyval option"
  kw_status_code :: "pyval option"
  kw_tags :: "pyval option"
  kw_dependencies :: "pyval option"
  kw_summary :: "pyval option"
  kw_description :: "pyval option"
  kw_response_description :: "pyval option"
  kw_responses :: "pyval option"
  kw_deprecated :: "pyval option"
  kw_methods :: "pyval option"
  kw_operation_id :: "pyval option"
  kw_include_in_schema :: "pyval option"
  kw_response_class :: "pyval option"
  kw_name :: "pyval option"
  kw_callbacks :: "pyval option"
  kw_openapi_extra :: "pyval option"
  kw_generate_unique_id_function :: "pyval option"

text \<open>Binding of a parameter declared \<open>= Sentinel\<close>.\<close>

definition default_Sentinel :: "pyval option \<Rightarrow> pyval" where
  "default_Sentinel a = (case a of None \<Rightarrow> Sentinel | Some v \<Rightarrow> v)"

definition had :: "EndpointInstructionFactory \<Rightarrow> had_kwargs \<Rightarrow> AlterEndpointSubInstruction" where
  "had self kw =
     EndpointHadInstruction (factory_endpoint_path self) (factory_endpoint_methods self)
       \<lparr>path = default_Sentinel (kw_path kw),
        status_code = default_Sentinel (kw_status_code kw),
        tags = default_Sentinel (kw_tags kw),
        dependencies = default_Sentinel (kw_dependencies kw),
        summary = default_Sentinel (kw_summary kw),
        description = default_Sentinel (kw_description kw),
        response_description = default_Sentinel (kw_response_description kw),
        responses = default_Sentinel (kw_responses kw),
        deprecated = default_Sentinel (kw_deprecated kw),
        methods = default_Sentinel (kw_methods kw),
        operation_id = default_Sentinel (kw_operation_id kw),
        include_in_schema = default_Sentinel (kw_include_in_schema kw),
        response_class = default_Sentinel (kw_response_class kw),
        name = default_Sentinel (kw_name kw),
        callbacks = default_Sentinel (kw_callbacks kw),
        openapi_extra = default_Sentinel (kw_openapi_extra kw),
        generate_unique_id_function = default_Sentinel (kw_generate_unique_id_function kw)\<rparr>"

definition endpoint :: "string \<Rightarrow> string list \<Rightarrow> EndpointInstructionFactory" where
  "endpoint ep_path ep_methods =
     \<lparr>factory_endpoint_path = ep_path, factory_endpoint_methods = ep_methods\<rparr>"

section \<open>Example values\<close>

text \<open>Concrete classes, transformers and stores, for the instances evaluated below.\<close>

abbreviation ex_User :: pyclass where
  "ex_User \<equiv> \<lparr>cls_id = 7, cls_module = ''app.schemas'', cls_name = ''User''\<rparr>"

abbreviation ex_InternalUser :: pyclass where
  "ex_InternalUser \<equiv> \<lparr>cls_id = 8, cls_module = ''app.internal'', cls_name = ''InternalUser''\<rparr>"

abbreviation ex_OtherUser :: pyclass where
  "ex_OtherUser \<equiv> \<lparr>cls_id = 10, cls_module = ''app.other'', cls_name = ''OtherUser''\<rparr>"


abbreviation ex_rename_field :: transformer where
  "ex_rename_field \<equiv>
     \<lparr>t_id = 1, t_module = ''versions.v2'', t_name = ''rename_field'',
      t_qualname = ''rename_field'', t_doc = None, t_annotations = PyDict [],
      t_params = [''request''], t_dict = Map.empty\<rparr>"

abbreviation ex_restore_field :: transformer where
  "ex_restore_field \<equiv>
     \<lparr>t_id = 2, t_module = ''versions.v2'', t_name = ''restore_field'',
      t_qualname = ''restore_field'', t_doc = None, t_annotations = PyDict [],
      t_params = [''response''], t_dict = Map.empty\<rparr>"

text \<open>
  The instruction that \<open>convert_request_to_next_version_for(OtherUser)\<close> returns for
  \<open>rename_field\<close>, and the one that \<open>convert_request_to_next_version_for("/b", ["GET"])\<close>
  returns for it, each as the transformer it is when a second converter is stacked on
  it: \<open>inspect.signature\<close> follows \<open>__wrapped__\<close> to \<open>rename_field\<close>, \<open>getattr\<close>
  finds the copied attributes, and \<open>__dict__\<close> holds the instance attributes.
\<close>

abbreviation ex_dict_by_schema :: "string \<rightharpoonup> pyval" where
  "ex_dict_by_schema \<equiv>
     [''transformer'' \<mapsto> PyObject 1, ''schema'' \<mapsto> PyObject 10,
      ''__module__'' \<mapsto> PyStr ''versions.v2'', ''__name__'' \<mapsto> PyStr ''rename_field'',
      ''__qualname__'' \<mapsto> PyStr ''rename_field'', ''__doc__'' \<mapsto> PyNone,
      ''__annotations__'' \<mapsto> PyDict [], ''__wrapped__'' \<mapsto> PyObject 1]"

abbreviation ex_dict_by_path :: "string \<rightharpoonup> pyval" where
  "ex_dict_by_path \<equiv>
     [''transformer'' \<mapsto> PyObject 1, ''path'' \<mapsto> PyStr ''/b'',
      ''methods'' \<mapsto> PyStrSet {''GET''},
      ''__module__'' \<mapsto> PyStr ''versions.v2'', ''__name__'' \<mapsto> PyStr ''rename_field'',
      ''__qualname__'' \<mapsto> PyStr ''rename_field'', ''__doc__'' \<mapsto> PyNone,
      ''__annotations__'' \<mapsto> PyDict [], ''__wrapped__'' \<mapsto> PyObject 1]"

abbreviation ex_by_schema :: Instruction where
  "ex_by_schema \<equiv> \<lparr>instr_class = AlterRequestBySchemaInstruction, instr_dict = ex_dict_by_schema\<rparr>"

abbreviation ex_by_path :: Instruction where
  "ex_by_path \<equiv> \<lparr>instr_class = AlterRequestByPathInstruction, instr_dict = ex_dict_by_path\<rparr>"

abbreviation ex_stacked_by_schema :: transformer where
  "ex_stacked_by_schema \<equiv>
     \<lparr>t_id = 20, t_module = ''versions.v2'', t_name = ''rename_field'',
      t_qualname = ''rename_field'', t_doc = None, t_annotations = PyDict [],
      t_params = [''request''], t_dict = ex_dict_by_schema\<rparr>"

abbreviation ex_stacked_by_path :: transformer where
  "ex_stacked_by_path \<equiv>
     \<lparr>t_id = 21, t_module = ''versions.v2'', t_name = ''rename_field'',
      t_qualname = ''rename_field'', t_doc = None, t_annotations = PyDict [],
      t_params = [''request''], t_dict = ex_dict_by_path\<rparr>"

abbreviation ex_store :: store where
  "ex_store \<equiv>
     [HeadersObj [(''host'', ''example.org''), (''cookie'', ''session=abc'')], DictObj [(''session'', ''abc'')],
      DictObj [(''page'', ''1'')]]"

abbreviation ex_request :: request where
  "ex_request \<equiv> \<lparr>rq_headers = 0, rq_cookies = 1, rq_query_params_dict = 2\<rparr>"

abbreviation ex_response_store :: store where
  "ex_response_store \<equiv> [HeadersObj [(''content-type'', ''application/json'')], ResponseObj 200 0]"

section \<open>Properties of instruction registration\<close>

lemmas init_simps = AlterDataInstruction_post_init_def
  AlterRequestBySchemaInstruction_init_def AlterRequestByPathInstruction_init_def
  AlterResponseBySchemaInstruction_init_def AlterResponseByPathInstruction_init_def
  BaseAlterRequestInstruction_payload_arg_name_def
  BaseAlterResponseInstruction_payload_arg_name_def

lemmas convert_simps = validate_decorator_args_def convert_request_to_next_version_for_def
  convert_response_to_previous_version_for_def decorate_def request_decorator_def
  response_decorator_def set_of_methods_def

text \<open>
  C1. Both converters validate their arguments before anything else. A path without
  methods and a schema with methods each raise \<open>ValueError\<close> with a message that says
  which rule was broken; a schema alone and a path with methods pass. On a failed
  validation the converter returns no decorator, so the error is the outcome of the
  registration whatever the transformer is, and no instruction is constructed; on a
  passed validation the converter returns its decorator.
\<close>

theorem validate_decorator_args_mutual_exclusion:
  "validate_decorator_args (PathArg p) None = Inl (ValueError ''If path was provided as a first argument, methods must be provided as a second argument'')
   \<and> validate_decorator_args (SchemaArg c) (Some ms) = Inl (ValueError ''If schema was provided as a first argument, methods argument should not be provided'')
   \<and> validate_decorator_args (SchemaArg c) None = Inr ()
   \<and> validate_decorator_args (PathArg p) (Some ms) = Inr ()
   \<and> convert_request_to_next_version_for (PathArg p) None = Inl (ValueError ''If path was provided as a first argument, methods must be provided as a second argument'')
   \<and> convert_request_to_next_version_for (SchemaArg c) (Some ms) = Inl (ValueError ''If schema was provided as a first argument, methods argument should not be provided'')
   \<and> convert_response_to_previous_version_for (PathArg p) None = Inl (ValueError ''If path was provided as a first argument, methods must be provided as a second argument'')
   \<and> convert_response_to_previous_version_for (SchemaArg c) (Some ms) = Inl (ValueError ''If schema was provided as a first argument, methods argument should not be provided'')
   \<and> decorate (convert_request_to_next_version_for (PathArg p) None) t = Inl (ValueError ''If path was provided as a first argument, methods must be provided as a second argument'')
   \<and> decorate (convert_request_to_next_version_for (SchemaArg c) (Some ms)) t = Inl (ValueError ''If schema was provided as a first argument, methods argument should not be provided'')
   \<and> decorate (convert_response_to_previous_version_for (PathArg p) None) t = Inl (ValueError ''If path was provided as a first argument, methods must be provided as a second argument'')
   \<and> decorate (convert_response_to_previous_version_for (SchemaArg c) (Some ms)) t = Inl (ValueError ''If schema was provided as a first argument, methods argument should not be provided'')
   \<and> convert_request_to_next_version_for (SchemaArg c) None = Inr (request_decorator (SchemaArg c) None)
   \<and> convert_request_to_next_version_for (PathArg p) (Some ms) = Inr (request_decorator (PathArg p) (Some ms))
   \<and> convert_response_to_previous_version_for (SchemaArg c) None = Inr (response_decorator (SchemaArg c) None)
   \<and> convert_response_to_previous_version_for (PathArg p) (Some ms) = Inr (response_decorator (PathArg p) (Some ms))"
  by (simp add: validate_decorator_args_def convert_request_to_next_version_for_def
      convert_response_to_previous_version_for_def decorate_def)

text \<open>
  C2. Constructing a request instruction raises exactly when the transformer's
  parameter names are not \<open>[''request'']\<close>, and constructing a response instruction
  raises exactly when they are not \<open>[''response'']\<close>: for each of the four classes, and
  for a registration through either converter with valid arguments. The check is the
  one in \<open>__post_init__\<close>, which raises \<open>ValueError\<close> naming the transformer; no
  parameters, more than one parameter, and one parameter of another name are all
  rejected there, so no instruction exists that could fail this check later.
\<close>

theorem transformer_signature_checked_at_construction:
  "isl (AlterRequestBySchemaInstruction_init c t) = (t_params t \<noteq> [''request''])
   \<and> isl (AlterRequestByPathInstruction_init p ms t) = (t_params t \<noteq> [''request''])
   \<and> isl (AlterResponseBySchemaInstruction_init c t) = (t_params t \<noteq> [''response''])
   \<and> isl (AlterResponseByPathInstruction_init p ms t) = (t_params t \<noteq> [''response''])
   \<and> isl (decorate (convert_request_to_next_version_for (SchemaArg c) None) t)
       = (t_params t \<noteq> [''request''])
   \<and> isl (decorate (convert_request_to_next_version_for (PathArg p) (Some l)) t)
       = (t_params t \<noteq> [''request''])
   \<and> isl (decorate (convert_response_to_previous_version_for (SchemaArg c) None) t)
       = (t_params t \<noteq> [''response''])
   \<and> isl (decorate (convert_response_to_previous_version_for (PathArg p) (Some l)) t)
       = (t_params t \<noteq> [''response''])
   \<and> AlterDataInstruction_post_init n d t =
       (if t_params t = [n] then Inr (update_wrapper d t)
        else Inl (ValueError (''Method '' @ [CHR 0x27] @ t_name t @ [CHR 0x27]
                  @ '' must have 2 parameters: cls and '' @ n)))
   \<and> isl (AlterDataInstruction_post_init n d (t\<lparr>t_params := []\<rparr>))
   \<and> isl (AlterDataInstruction_post_init n d (t\<lparr>t_params := x # y # zs\<rparr>))
   \<and> isl (AlterDataInstruction_post_init n d (t\<lparr>t_params := [x]\<rparr>)) = (x \<noteq> n)"
  by (simp add: init_simps convert_simps)

lemma update_wrapper_lookup:
  "update_wrapper d t k =
     (if k = ''__wrapped__'' then Some (PyObject (t_id t))
      else case t_dict t k of
             Some v \<Rightarrow> Some v
           | None \<Rightarrow>
               (if k = ''__module__'' then Some (PyStr (t_module t))
                else if k = ''__name__'' then Some (PyStr (t_name t))
                else if k = ''__qualname__'' then Some (PyStr (t_qualname t))
                else if k = ''__doc__''
                  then Some (case t_doc t of None \<Rightarrow> PyNone | Some doc \<Rightarrow> PyStr doc)
                else if k = ''__annotations__'' then Some (t_annotations t)
                else d k))"
  by (simp add: update_wrapper_def map_add_def split: option.splits)

text \<open>
  For a transformer without attributes of its own, such as a function straight from a
  \<open>def\<close>, the instruction is of the class that matches the converter and the
  argument, and its fields hold the transformer, the schema, the path and the set of
  the methods given.
\<close>

lemma plain_function_gets_matching_instruction:
  assumes "t_dict tq = Map.empty" and "t_params tq = [''request'']"
    and "t_dict tp = Map.empty" and "t_params tp = [''response'']"
  shows "(\<exists>i. decorate (convert_request_to_next_version_for (PathArg p) (Some ms)) tq = Inr i
            \<and> instr_class i = AlterRequestByPathInstruction
            \<and> getattr_field i ''transformer'' = Inr (PyObject (t_id tq))
            \<and> getattr_field i ''path'' = Inr (PyStr p)
            \<and> getattr_field i ''methods'' = Inr (PyStrSet (set ms)))
       \<and> (\<exists>i. decorate (convert_request_to_next_version_for (SchemaArg c) None) tq = Inr i
            \<and> instr_class i = AlterRequestBySchemaInstruction
            \<and> getattr_field i ''transformer'' = Inr (PyObject (t_id tq))
            \<and> getattr_field i ''schema'' = Inr (PyObject (cls_id c)))
       \<and> (\<exists>i. decorate (convert_response_to_previous_version_for (PathArg p) (Some ms)) tp = Inr i
            \<and> instr_class i = AlterResponseByPathInstruction
            \<and> getattr_field i ''transformer'' = Inr (PyObject (t_id tp))
            \<and> getattr_field i ''path'' = Inr (PyStr p)
            \<and> getattr_field i ''methods'' = Inr (PyStrSet (set ms)))
       \<and> (\<exists>i. decorate (convert_response_to_previous_version_for (SchemaArg c) None) tp = Inr i
            \<and> instr_class i = AlterResponseBySchemaInstruction
            \<and> getattr_field i ''transformer'' = Inr (PyObject (t_id tp))
            \<and> getattr_field i ''schema'' = Inr (PyObject (cls_id c)))"
  using assms
  by (simp add: init_simps convert_simps getattr_field_def update_wrapper_lookup)

text \<open>
  C8. The claim has the instruction carry the schema, or the path and the set of
  methods, that the converter was given, for every transformer it accepts. The
  constructor stores them, but \<open>__post_init__\<close> then calls \<open>functools.update_wrapper\<close>,
  which updates the instance \<open>__dict__\<close>, where those fields live, with the
  transformer's \<open>__dict__\<close>. A transformer that is itself an instruction, as under two
  stacked converters, has \<open>transformer\<close>, \<open>schema\<close>, \<open>path\<close> and \<open>methods\<close> there.
  Evaluated: \<open>convert_request_to_next_version_for(User)\<close> stacked on
  \<open>convert_request_to_next_version_for(OtherUser)\<close> returns an instruction whose
  \<open>schema\<close> is \<open>OtherUser\<close> and whose \<open>transformer\<close> is the inner function; and
  \<open>("/a", ["POST"])\<close> stacked on \<open>("/b", ["GET"])\<close> returns one whose \<open>path\<close> is
  \<open>"/b"\<close> and whose \<open>methods\<close> is \<open>{"GET"}\<close>. The class of the instruction is the
  matching one in both.
\<close>

theorem stacked_converter_loses_its_own_matcher:
  "decorate (convert_request_to_next_version_for (SchemaArg ex_OtherUser) None) ex_rename_field
     = Inr ex_by_schema
   \<and> decorate (convert_request_to_next_version_for (SchemaArg ex_User) None) ex_stacked_by_schema
     = Inr \<lparr>instr_class = AlterRequestBySchemaInstruction,
            instr_dict = ex_dict_by_schema(''__wrapped__'' \<mapsto> PyObject 20)\<rparr>
   \<and> getattr_field \<lparr>instr_class = AlterRequestBySchemaInstruction,
            instr_dict = ex_dict_by_schema(''__wrapped__'' \<mapsto> PyObject 20)\<rparr> ''schema''
     = Inr (PyObject (cls_id ex_OtherUser))
   \<and> PyObject (cls_id ex_OtherUser) \<noteq> PyObject (cls_id ex_User)
   \<and> getattr_field \<lparr>instr_class = AlterRequestBySchemaInstruction,
            instr_dict = ex_dict_by_schema(''__wrapped__'' \<mapsto> PyObject 20)\<rparr> ''transformer''
     = Inr (PyObject (t_id ex_rename_field))
   \<and> PyObject (t_id ex_rename_field) \<noteq> PyObject (t_id ex_stacked_by_schema)
   \<and> decorate (convert_request_to_next_version_for (PathArg ''/b'') (Some [''GET''])) ex_rename_field
     = Inr ex_by_path
   \<and> decorate (convert_request_to_next_version_for (PathArg ''/a'') (Some [''POST''])) ex_stacked_by_path
     = Inr \<lparr>instr_class = AlterRequestByPathInstruction,
            instr_dict = ex_dict_by_path(''__wrapped__'' \<mapsto> PyObject 21)\<rparr>
   \<and> getattr_field \<lparr>instr_class = AlterRequestByPathInstruction,
            instr_dict = ex_dict_by_path(''__wrapped__'' \<mapsto> PyObject 21)\<rparr> ''path''
     = Inr (PyStr ''/b'')
   \<and> getattr_field \<lparr>instr_class = AlterRequestByPathInstruction,
            instr_dict = ex_dict_by_path(''__wrapped__'' \<mapsto> PyObject 21)\<rparr> ''methods''
     = Inr (PyStrSet {''GET''})"
  by (simp add: init_simps convert_simps update_wrapper_def getattr_field_def)











section \<open>Properties of the internal representation registry\<close>

lemma internal_body_representation_of_keeps:
  assumes "m k = Some v"
  shows "snd (internal_body_representation_of represents cls m) k = Some v"
  using assms by (auto simp: internal_body_representation_of_def split: option.splits)

lemma register_all_keeps:
  assumes "m k = Some v"
  shows "register_all regs m k = Some v"
  using assms
proof (induction regs arbitrary: m)
  case Nil
  then show ?case by simp
next
  case (Cons r regs)
  obtain represents cls where r: "r = (represents, cls)" by (cases r)
  have "snd (internal_body_representation_of represents cls m) k = Some v"
    using Cons.prems by (rule internal_body_representation_of_keeps)
  then show ?case using Cons.IH r by simp
qed

text \<open>
  C3. When the dictionary has no entry for the public schema, the registration returns
  the decorated class and records it. A second registration for the same schema then
  raises \<open>TypeError\<close>, and the message names the module and the name of the class
  registered first. Whatever registrations are attempted afterwards, the schema stays
  mapped to the class registered first: no schema ever has its representation replaced.
\<close>

theorem one_internal_representation_per_schema:
  assumes "m represents = None"
  shows "internal_body_representation_of represents cls m = (Inr cls, m(represents \<mapsto> cls))
       \<and> internal_body_representation_of represents later
           (snd (internal_body_representation_of represents cls m))
         = (Inl (TypeError (cls_name represents
                  @ '' already has an internal request body representation: ''
                  @ cls_module cls @ ''.'' @ cls_name cls)),
            m(represents \<mapsto> cls))
       \<and> register_all regs (snd (internal_body_representation_of represents cls m)) represents
         = Some cls"
proof -
  have first: "internal_body_representation_of represents cls m = (Inr cls, m(represents \<mapsto> cls))"
    using assms by (simp add: internal_body_representation_of_def)
  have second: "internal_body_representation_of represents later (m(represents \<mapsto> cls))
         = (Inl (TypeError (cls_name represents
                  @ '' already has an internal request body representation: ''
                  @ cls_module cls @ ''.'' @ cls_name cls)),
            m(represents \<mapsto> cls))"
    by (simp add: internal_body_representation_of_def)
  have ever: "register_all regs (m(represents \<mapsto> cls)) represents = Some cls"
    by (rule register_all_keeps) simp
  show ?thesis using first second ever by simp
qed

theorem one_internal_representation_per_schema_witness:
  "internal_body_representation_of ex_User ex_InternalUser Map.empty = (Inr ex_InternalUser, [ex_User \<mapsto> ex_InternalUser])
   \<and> internal_body_representation_of ex_User ex_OtherUser [ex_User \<mapsto> ex_InternalUser]
       = (Inl (TypeError ''User already has an internal request body representation: app.internal.InternalUser''),
          [ex_User \<mapsto> ex_InternalUser])
   \<and> register_all [(ex_User, ex_OtherUser), (ex_OtherUser, ex_User), (ex_User, ex_User)] [ex_User \<mapsto> ex_InternalUser] ex_User = Some ex_InternalUser"
  using one_internal_representation_per_schema [where m = Map.empty and represents = ex_User and cls = ex_InternalUser and later = ex_OtherUser
        and regs = "[(ex_User, ex_OtherUser), (ex_OtherUser, ex_User), (ex_User, ex_User)]"]
  by (simp add: internal_body_representation_of_def)

text \<open>
  C10. A registration for a schema that already has a representation raises and leaves
  the dictionary exactly as it was, so the earlier entry stays. A registration for a
  schema without one returns the decorated class itself, maps the schema to it, and
  leaves the entry of every other key as it was.
\<close>

theorem registration_atomic_and_identity_preserving:
  "(m represents = Some pre \<longrightarrow>
      isl (fst (internal_body_representation_of represents cls m))
      \<and> snd (internal_body_representation_of represents cls m) = m
      \<and> snd (internal_body_representation_of represents cls m) represents = Some pre)
   \<and> (m represents = None \<longrightarrow>
      fst (internal_body_representation_of represents cls m) = Inr cls
      \<and> snd (internal_body_representation_of represents cls m) represents = Some cls
      \<and> (\<forall>k. k \<noteq> represents \<longrightarrow>
            snd (internal_body_representation_of represents cls m) k = m k))"
  by (simp add: internal_body_representation_of_def)

theorem registration_atomic_and_identity_preserving_witness:
  "isl (fst (internal_body_representation_of ex_User ex_OtherUser [ex_User \<mapsto> ex_InternalUser]))
   \<and> snd (internal_body_representation_of ex_User ex_OtherUser [ex_User \<mapsto> ex_InternalUser]) = [ex_User \<mapsto> ex_InternalUser]
   \<and> fst (internal_body_representation_of ex_OtherUser ex_User [ex_User \<mapsto> ex_InternalUser]) = Inr ex_User
   \<and> snd (internal_body_representation_of ex_OtherUser ex_User [ex_User \<mapsto> ex_InternalUser]) ex_OtherUser = Some ex_User
   \<and> snd (internal_body_representation_of ex_OtherUser ex_User [ex_User \<mapsto> ex_InternalUser]) ex_User = Some ex_InternalUser"
  using registration_atomic_and_identity_preserving [of "[ex_User \<mapsto> ex_InternalUser]" ex_User ex_InternalUser ex_OtherUser]
    registration_atomic_and_identity_preserving [of "[ex_User \<mapsto> ex_InternalUser]" ex_OtherUser ex_InternalUser ex_User]
  by simp

section \<open>Properties of the payload views\<close>

lemma heap_get_put_same: "heap_get (heap_put s a ob) a = (if a < length s then Some ob else None)"
  by (simp add: heap_get_def heap_put_def)

lemma heap_get_put_other: "a \<noteq> a' \<Longrightarrow> heap_get (heap_put s a ob) a' = heap_get s a'"
  by (simp add: heap_get_def heap_put_def)

lemma RequestInfo_init_Inr:
  assumes "RequestInfo_init s rq b = Inr (ri, s1)"
  shows "\<exists>raw. heap_get s (rq_headers rq) = Some (HeadersObj raw)
           \<and> s1 = s @ [HeadersObj raw]
           \<and> ri = \<lparr>req_body = b, req_headers = length s, req__cookies = rq_cookies rq,
                    req__query_params = rq_query_params_dict rq, req__request = rq\<rparr>"
  using assms
  by (auto simp: RequestInfo_init_def Headers_mutablecopy_def heap_alloc_def
      split: option.splits pyobj.splits)

text \<open>
  C4, as stated, fails. The claim says that \<open>cookies\<close> and \<open>query_params\<close> are
  snapshots, so that a mutation made through them does not reach the request. The
  constructor stores the objects that \<open>request.cookies\<close> and
  \<open>request.query_params._dict\<close> gave it, without copying them. In the store below the
  request's cookies are the object at address 1 and its query parameters the object at
  address 2; the view's \<open>cookies\<close> is address 1 and its \<open>query_params\<close> address 2, and
  after a mutation through either view the request's own object has the new content.
\<close>

theorem RequestInfo_views_share_request_objects_counterexample:
  "RequestInfo_init ex_store ex_request PyNone
     = Inr (\<lparr>req_body = PyNone, req_headers = 3, req__cookies = 1, req__query_params = 2,
              req__request = ex_request\<rparr>,
            ex_store @ [HeadersObj [(''host'', ''example.org''), (''cookie'', ''session=abc'')]])
   \<and> RequestInfo_cookies \<lparr>req_body = PyNone, req_headers = 3, req__cookies = 1,
        req__query_params = 2, req__request = ex_request\<rparr> = 1
   \<and> RequestInfo_query_params \<lparr>req_body = PyNone, req_headers = 3, req__cookies = 1,
        req__query_params = 2, req__request = ex_request\<rparr> = 2
   \<and> heap_get (ex_store @ [HeadersObj [(''host'', ''example.org''), (''cookie'', ''session=abc'')]]) (rq_cookies ex_request)
       = Some (DictObj [(''session'', ''abc'')])
   \<and> heap_get (heap_put (ex_store @ [HeadersObj [(''host'', ''example.org''), (''cookie'', ''session=abc'')]]) 1
                  (DictObj [(''session'', ''forged'')])) (rq_cookies ex_request)
       = Some (DictObj [(''session'', ''forged'')])
   \<and> heap_get (heap_put (ex_store @ [HeadersObj [(''host'', ''example.org''), (''cookie'', ''session=abc'')]]) 1
                  (DictObj [(''session'', ''forged'')])) (rq_cookies ex_request)
       \<noteq> heap_get (ex_store @ [HeadersObj [(''host'', ''example.org''), (''cookie'', ''session=abc'')]]) (rq_cookies ex_request)
   \<and> heap_get (ex_store @ [HeadersObj [(''host'', ''example.org''), (''cookie'', ''session=abc'')]]) (rq_query_params_dict ex_request)
       = Some (DictObj [(''page'', ''1'')])
   \<and> heap_get (heap_put (ex_store @ [HeadersObj [(''host'', ''example.org''), (''cookie'', ''session=abc'')]]) 2
                  (DictObj [(''page'', ''1''), (''admin'', ''1'')])) (rq_query_params_dict ex_request)
       = Some (DictObj [(''page'', ''1''), (''admin'', ''1'')])
   \<and> heap_get (heap_put (ex_store @ [HeadersObj [(''host'', ''example.org''), (''cookie'', ''session=abc'')]]) 2
                  (DictObj [(''page'', ''1''), (''admin'', ''1'')])) (rq_query_params_dict ex_request)
       \<noteq> heap_get (ex_store @ [HeadersObj [(''host'', ''example.org''), (''cookie'', ''session=abc'')]]) (rq_query_params_dict ex_request)"
  by (simp add: RequestInfo_init_def Headers_mutablecopy_def heap_alloc_def heap_get_def
      heap_put_def RequestInfo_cookies_def RequestInfo_query_params_def)

text \<open>
  C4, amended. For every \<open>RequestInfo\<close> constructed from a request and a body:
  \<open>cookies\<close> and \<open>query_params\<close> return the very objects that \<open>request.cookies\<close> and
  \<open>request.query_params._dict\<close> evaluated to at construction, and assigning to either
  property raises; no copy is taken, so a mutation made through them is a mutation of
  the object the request supplied. \<open>body\<close> is the body given. \<open>headers\<close> is a new
  object, not the request's headers object, with the content the request's headers
  had; mutating it changes no other object, the request's headers included.
\<close>

theorem RequestInfo_views_alias_and_headers_copied:
  assumes "RequestInfo_init s rq b = Inr (ri, s1)"
  shows "RequestInfo_cookies ri = rq_cookies rq
       \<and> RequestInfo_query_params ri = rq_query_params_dict rq
       \<and> RequestInfo_cookies_assign ri v = Inl AttributeError
       \<and> RequestInfo_query_params_assign ri v = Inl AttributeError
       \<and> req_body ri = b
       \<and> heap_get s (req_headers ri) = None
       \<and> req_headers ri \<noteq> rq_headers rq
       \<and> heap_get s1 (req_headers ri) = heap_get s (rq_headers rq)
       \<and> (\<forall>a. a \<noteq> req_headers ri \<longrightarrow>
             heap_get (heap_put s1 (req_headers ri) ob) a = heap_get s1 a)
       \<and> heap_get (heap_put s1 (req_headers ri) ob) (rq_headers rq) = heap_get s1 (rq_headers rq)
       \<and> heap_get (heap_put s1 (RequestInfo_cookies ri) ob) (rq_cookies rq)
           = (if rq_cookies rq < length s1 then Some ob else None)
       \<and> heap_get (heap_put s1 (RequestInfo_query_params ri) ob) (rq_query_params_dict rq)
           = (if rq_query_params_dict rq < length s1 then Some ob else None)"
proof -
  obtain raw where raw: "heap_get s (rq_headers rq) = Some (HeadersObj raw)"
    and s1: "s1 = s @ [HeadersObj raw]"
    and ri: "ri = \<lparr>req_body = b, req_headers = length s, req__cookies = rq_cookies rq,
                    req__query_params = rq_query_params_dict rq, req__request = rq\<rparr>"
    using RequestInfo_init_Inr [OF assms] by blast
  have lt: "rq_headers rq < length s"
    using raw by (simp add: heap_get_def split: if_splits)
  then have ne: "req_headers ri \<noteq> rq_headers rq"
    using ri by simp
  have fresh: "heap_get s (req_headers ri) = None"
    using ri by (simp add: heap_get_def)
  have new: "heap_get s1 (req_headers ri) = heap_get s (rq_headers rq)"
    using ri s1 raw by (simp add: heap_get_def)
  have put: "heap_get (heap_put s1 (req_headers ri) ob) a = heap_get s1 a"
    if "a \<noteq> req_headers ri" for a
    using that by (simp add: heap_get_put_other)
  have cookies: "RequestInfo_cookies ri = rq_cookies rq"
    and query: "RequestInfo_query_params ri = rq_query_params_dict rq"
    and body: "req_body ri = b"
    using ri by (simp_all add: RequestInfo_cookies_def RequestInfo_query_params_def)
  show ?thesis
    using cookies query body ne fresh new put put [of "rq_headers rq"]
      heap_get_put_same [of s1 "rq_cookies rq" ob]
      heap_get_put_same [of s1 "rq_query_params_dict rq" ob]
    by (simp add: RequestInfo_cookies_assign_def RequestInfo_query_params_assign_def)
qed

theorem RequestInfo_views_alias_and_headers_copied_witness:
  "RequestInfo_init ex_store ex_request PyNone
     = Inr (\<lparr>req_body = PyNone, req_headers = 3, req__cookies = 1, req__query_params = 2,
              req__request = ex_request\<rparr>,
            ex_store @ [HeadersObj [(''host'', ''example.org''), (''cookie'', ''session=abc'')]])
   \<and> heap_get (heap_put (ex_store @ [HeadersObj [(''host'', ''example.org''), (''cookie'', ''session=abc'')]]) 3
         (HeadersObj [(''host'', ''internal'')])) (rq_headers ex_request)
       = Some (HeadersObj [(''host'', ''example.org''), (''cookie'', ''session=abc'')])
   \<and> heap_get (ex_store @ [HeadersObj [(''host'', ''example.org''), (''cookie'', ''session=abc'')]]) 3
       = Some (HeadersObj [(''host'', ''example.org''), (''cookie'', ''session=abc'')])"
proof -
  have h: "RequestInfo_init ex_store ex_request PyNone
     = Inr (\<lparr>req_body = PyNone, req_headers = 3, req__cookies = 1, req__query_params = 2,
              req__request = ex_request\<rparr>,
            ex_store @ [HeadersObj [(''host'', ''example.org''), (''cookie'', ''session=abc'')]])"
    by (simp add: RequestInfo_init_def Headers_mutablecopy_def heap_alloc_def heap_get_def)
  show ?thesis
    using h RequestInfo_views_alias_and_headers_copied [OF h, where v = 1 and ob = "HeadersObj [(''host'', ''internal'')]"]
    by (simp add: heap_get_def)
qed

text \<open>
  C5. For a \<open>ResponseInfo\<close> over the response at address \<open>r\<close>: reading \<open>status_code\<close>
  gives the response's status code; assigning it writes the response's status code,
  which is what a later read gives, and touches no other object; \<open>headers\<close> is the
  reference the response itself holds, before and after a status change, so a mutation
  of the headers object through it is a mutation of the response's headers;
  \<open>set_cookie\<close> and \<open>delete_cookie\<close> call the response's method of the same name on
  that response with the arguments they were given, and return what it returns.
\<close>

theorem ResponseInfo_delegates_to_response:
  assumes "heap_get s r = Some (ResponseObj c h)"
  shows "ResponseInfo_status_code (ResponseInfo_init r b) s = Inr c
       \<and> ResponseInfo_status_code_setter (ResponseInfo_init r b) v s
           = Inr (heap_put s r (ResponseObj v h))
       \<and> heap_get (heap_put s r (ResponseObj v h)) r = Some (ResponseObj v h)
       \<and> ResponseInfo_status_code (ResponseInfo_init r b) (heap_put s r (ResponseObj v h)) = Inr v
       \<and> (\<forall>a. a \<noteq> r \<longrightarrow> heap_get (heap_put s r (ResponseObj v h)) a = heap_get s a)
       \<and> ResponseInfo_headers (ResponseInfo_init r b) s = Inr h
       \<and> ResponseInfo_headers (ResponseInfo_init r b) (heap_put s r (ResponseObj v h)) = Inr h
       \<and> (h \<noteq> r \<longrightarrow> ResponseInfo_headers (ResponseInfo_init r b) (heap_put s h ob) = Inr h
                    \<and> heap_get (heap_put s h ob) h = (if h < length s then Some ob else None))
       \<and> ResponseInfo_set_cookie Response_set_cookie (ResponseInfo_init r b) ca s
           = Response_set_cookie r ca s
       \<and> ResponseInfo_delete_cookie Response_delete_cookie (ResponseInfo_init r b) ca s
           = Response_delete_cookie r ca s"
proof -
  have lt: "r < length s"
    using assms by (simp add: heap_get_def split: if_splits)
  have same: "heap_get (heap_put s r (ResponseObj v h)) r = Some (ResponseObj v h)"
    using lt by (simp add: heap_get_put_same)
  have other: "heap_get (heap_put s h ob) r = Some (ResponseObj c h)" if "h \<noteq> r"
    using that assms by (simp add: heap_get_put_other)
  show ?thesis
    using assms same other
    by (simp add: ResponseInfo_status_code_def ResponseInfo_status_code_setter_def
        ResponseInfo_headers_def ResponseInfo_init_def ResponseInfo_set_cookie_def
        ResponseInfo_delete_cookie_def same_definition_as_in_def heap_get_put_other
        heap_get_put_same)
qed

theorem ResponseInfo_delegates_to_response_witness:
  "heap_get ex_response_store 1 = Some (ResponseObj 200 0)
   \<and> ResponseInfo_status_code (ResponseInfo_init 1 PyNone) ex_response_store = Inr 200
   \<and> ResponseInfo_status_code_setter (ResponseInfo_init 1 PyNone) 404 ex_response_store
       = Inr [HeadersObj [(''content-type'', ''application/json'')], ResponseObj 404 0]
   \<and> ResponseInfo_headers (ResponseInfo_init 1 PyNone) ex_response_store = Inr 0
   \<and> ResponseInfo_set_cookie (\<lambda>r ca s. (r, args ca, length s)) (ResponseInfo_init 1 PyNone)
         \<lparr>args = [PyStr ''k'', PyStr ''v''], kwargs = [(''max_age'', PyInt 60)]\<rparr> ex_response_store
       = (1, [PyStr ''k'', PyStr ''v''], 2)"
proof -
  have h: "heap_get ex_response_store 1 = Some (ResponseObj 200 0)"
    by (simp add: heap_get_def)
  show ?thesis
    using h ResponseInfo_delegates_to_response [OF h, of PyNone 404 "HeadersObj []"
        "\<lambda>r ca s. (r, args ca, length s)"
        "\<lparr>args = [PyStr ''k'', PyStr ''v''], kwargs = [(''max_age'', PyInt 60)]\<rparr>"
        "\<lambda>r ca s. (r, args ca, length s)"]
    by (simp add: heap_put_def)
qed

section \<open>Properties of the endpoint instructions\<close>

text \<open>
  C6. In the payload that \<open>had\<close> builds, every attribute whose keyword argument was
  passed holds the value passed, and every attribute whose keyword argument was left
  out holds \<open>Sentinel\<close>. \<open>Sentinel\<close> differs from \<open>None\<close> and from every other kind of
  value, so an attribute that was left out differs from one that was passed as \<open>None\<close>.
\<close>

theorem had_fills_unsupplied_with_Sentinel:
  "path (attributes (had self kw)) = (case kw_path kw of None \<Rightarrow> Sentinel | Some v \<Rightarrow> v)
   \<and> status_code (attributes (had self kw)) = (case kw_status_code kw of None \<Rightarrow> Sentinel | Some v \<Rightarrow> v)
   \<and> tags (attributes (had self kw)) = (case kw_tags kw of None \<Rightarrow> Sentinel | Some v \<Rightarrow> v)
   \<and> dependencies (attributes (had self kw)) = (case kw_dependencies kw of None \<Rightarrow> Sentinel | Some v \<Rightarrow> v)
   \<and> summary (attributes (had self kw)) = (case kw_summary kw of None \<Rightarrow> Sentinel | Some v \<Rightarrow> v)
   \<and> description (attributes (had self kw)) = (case kw_description kw of None \<Rightarrow> Sentinel | Some v \<Rightarrow> v)
   \<and> response_description (attributes (had self kw)) = (case kw_response_description kw of None \<Rightarrow> Sentinel | Some v \<Rightarrow> v)
   \<and> responses (attributes (had self kw)) = (case kw_responses kw of None \<Rightarrow> Sentinel | Some v \<Rightarrow> v)
   \<and> deprecated (attributes (had self kw)) = (case kw_deprecated kw of None \<Rightarrow> Sentinel | Some v \<Rightarrow> v)
   \<and> methods (attributes (had self kw)) = (case kw_methods kw of None \<Rightarrow> Sentinel | Some v \<Rightarrow> v)
   \<and> operation_id (attributes (had self kw)) = (case kw_operation_id kw of None \<Rightarrow> Sentinel | Some v \<Rightarrow> v)
   \<and> include_in_schema (attributes (had self kw)) = (case kw_include_in_schema kw of None \<Rightarrow> Sentinel | Some v \<Rightarrow> v)
   \<and> response_class (attributes (had self kw)) = (case kw_response_class kw of None \<Rightarrow> Sentinel | Some v \<Rightarrow> v)
   \<and> name (attributes (had self kw)) = (case kw_name kw of None \<Rightarrow> Sentinel | Some v \<Rightarrow> v)
   \<and> callbacks (attributes (had self kw)) = (case kw_callbacks kw of None \<Rightarrow> Sentinel | Some v \<Rightarrow> v)
   \<and> openapi_extra (attributes (had self kw)) = (case kw_openapi_extra kw of None \<Rightarrow> Sentinel | Some v \<Rightarrow> v)
   \<and> generate_unique_id_function (attributes (had self kw)) = (case kw_generate_unique_id_function kw of None \<Rightarrow> Sentinel | Some v \<Rightarrow> v)
   \<and> Sentinel \<noteq> PyNone \<and> Sentinel \<noteq> PyBool b \<and> Sentinel \<noteq> PyInt i \<and> Sentinel \<noteq> PyStr s
   \<and> Sentinel \<noteq> PyList l \<and> Sentinel \<noteq> PyDict d \<and> Sentinel \<noteq> PyStrSet ss
   \<and> Sentinel \<noteq> PyObject a
   \<and> default_Sentinel None = Sentinel \<and> default_Sentinel (Some PyNone) = PyNone
   \<and> default_Sentinel None \<noteq> default_Sentinel (Some PyNone)"
  by (simp add: had_def default_Sentinel_def)

text \<open>
  C7. The three instructions made from \<open>endpoint(endpoint_path, endpoint_methods)\<close>
  carry the path and the list of methods given to the factory, unchanged; so they
  carry the same set of methods.
\<close>

theorem endpoint_instructions_keep_key:
  "endpoint_path (didnt_exist (endpoint p ms)) = p
   \<and> endpoint_methods (didnt_exist (endpoint p ms)) = ms
   \<and> endpoint_path (existed (endpoint p ms)) = p
   \<and> endpoint_methods (existed (endpoint p ms)) = ms
   \<and> endpoint_path (had (endpoint p ms) kw) = p
   \<and> endpoint_methods (had (endpoint p ms) kw) = ms
   \<and> set (endpoint_methods (didnt_exist (endpoint p ms))) = set ms
   \<and> set (endpoint_methods (existed (endpoint p ms))) = set ms
   \<and> set (endpoint_methods (had (endpoint p ms) kw)) = set ms
   \<and> didnt_exist (endpoint p ms) = EndpointDidntExistInstruction p ms
   \<and> existed (endpoint p ms) = EndpointExistedInstruction p ms
   \<and> (\<exists>a. had (endpoint p ms) kw = EndpointHadInstruction p ms a)"
  by (simp add: didnt_exist_def existed_def had_def endpoint_def)

end
